theory Spec2Isabelle
  imports Complex_Main
begin

section \<open>Data model\<close>

text \<open>
  The rows of the store, as the handlers of
  \<^verbatim>\<open>supabase/functions/test-management/index.ts\<close> read and write them. The columns are
  those of the SQL schema of the repository (\<^verbatim>\<open>CREATE TABLE tests\<close>, \<^verbatim>\<open>questions\<close>,
  \<^verbatim>\<open>test_attempts\<close>, \<^verbatim>\<open>student_answers\<close>, and the migration that widens the check on
  \<^verbatim>\<open>questions.correct_answer\<close>; both follow the deployment notes) and of the TypeScript types
  \<^verbatim>\<open>Test\<close>, \<^verbatim>\<open>Question\<close>, \<^verbatim>\<open>TestAttempt\<close>; columns no handler reads (titles, option
  texts, \<^verbatim>\<open>created_at\<close>, the generated id of an answer row) are left out. The primary
  key column \<^verbatim>\<open>id\<close> of each table is called \<open>..._pk\<close> here, and \<^verbatim>\<open>questions.test_id\<close>
  is \<open>owner_test\<close>.

  A \<^verbatim>\<open>uuid\<close> is a string. A timestamp is the number of milliseconds since the epoch:
  the handlers compare \<^verbatim>\<open>Date\<close> objects with \<^verbatim>\<open><\<close> and \<^verbatim>\<open>>\<close>, which compares these
  numbers. The score is a rational: the handler only adds \<^verbatim>\<open>1\<close> and subtracts \<^verbatim>\<open>0.25\<close>,
  and every multiple of a quarter of this size is an exact double, so the JavaScript
  arithmetic agrees with the exact one.
\<close>

type_synonym uuid = string
type_synonym timestamp = int

record test =
  test_pk :: uuid
  start_time :: timestamp
  end_time :: timestamp
  duration_minutes :: nat
  total_questions :: nat
  is_active :: bool

record question =
  question_pk :: uuid
  owner_test :: uuid
  correct_answer :: string

record test_attempt =
  attempt_pk :: uuid
  student_id :: uuid
  test_id :: uuid
  started_at :: timestamp
  submitted_at :: "timestamp option"
  score :: rat
  is_completed :: bool

record student_answer =
  attempt_id :: uuid
  question_id :: uuid
  selected_answer :: string
  is_correct :: bool

record db =
  students :: "uuid list"
  tests :: "test list"
  questions :: "question list"
  test_attempts :: "test_attempt list"
  student_answers :: "student_answer list"

section \<open>The environment of one request\<close>

text \<open>
  Every store call of a handler returns \<^verbatim>\<open>{ data, error }\<close>, and the handlers branch on
  \<^verbatim>\<open>error\<close>. An error has two sources: a constraint of the schema that the call violates
  (decided by the tables, below), and a failure outside the tables (network, timeout).
  The second is the oracle \<open>down\<close>, one flag per call site. \<open>clock\<close> is what
  \<^verbatim>\<open>new Date()\<close> returns at the handler's first reading of the clock, \<open>clock_insert\<close> what
  it returns inside the \<^verbatim>\<open>insert\<close> of \<^verbatim>\<open>start-test\<close>, and \<open>new_id\<close> is the uuid the store
  generates for an inserted attempt (\<^verbatim>\<open>DEFAULT gen_random_uuid()\<close>).
\<close>

datatype call =
  ReadTest | ReadExistingAttempt | InsertAttempt
  | ReadQuestion | UpsertAnswer
  | ReadAnswers | UpdateAttempt
  | ReadActiveTest

record env =
  down :: "call \<Rightarrow> bool"
  clock :: timestamp
  clock_insert :: timestamp
  new_id :: uuid

section \<open>The store\<close>

text \<open>\<^verbatim>\<open>.single()\<close>: the row when exactly one row matches, otherwise no data and an error.\<close>

fun single_row :: "'a list \<Rightarrow> 'a option" where
  "single_row [x] = Some x"
| "single_row _ = None"

text \<open>
  \<^verbatim>\<open>insert({student_id, test_id, started_at}).select().single()\<close> on \<^verbatim>\<open>test_attempts\<close>.
  The schema's defaults fill the other columns (\<^verbatim>\<open>score decimal DEFAULT 0\<close>,
  \<^verbatim>\<open>is_completed boolean DEFAULT false\<close>, \<^verbatim>\<open>submitted_at\<close> null); the insert is refused
  when it breaks the primary key, a foreign key (\<^verbatim>\<open>REFERENCES students(id)\<close>,
  \<^verbatim>\<open>REFERENCES tests(id)\<close>) or \<^verbatim>\<open>UNIQUE(student_id, test_id)\<close>.
\<close>

definition insert_attempt :: "env \<Rightarrow> uuid \<Rightarrow> uuid \<Rightarrow> db \<Rightarrow> (test_attempt \<times> db) option" where
  "insert_attempt e studentId testId s =
     (let row = \<lparr>attempt_pk = new_id e, student_id = studentId, test_id = testId,
                 started_at = clock_insert e, submitted_at = None, score = 0,
                 is_completed = False\<rparr>
      in if down e InsertAttempt then None
         else if new_id e \<in> set (map attempt_pk (test_attempts s)) then None
         else if studentId \<notin> set (students s) then None
         else if testId \<notin> set (map test_pk (tests s)) then None
         else if (studentId, testId) \<in> set (map (\<lambda>a. (student_id a, test_id a)) (test_attempts s))
           then None
         else Some (row, s\<lparr>test_attempts := test_attempts s @ [row]\<rparr>))"

text \<open>
  \<^verbatim>\<open>upsert({attempt_id, question_id, selected_answer, is_correct})\<close> on
  \<^verbatim>\<open>student_answers\<close>. The handler passes neither \<^verbatim>\<open>onConflict\<close> nor an \<^verbatim>\<open>id\<close>, so the
  conflict target is the primary key and the row gets a freshly generated one: the call
  never updates a stored row, it inserts. The schema refuses the insert when an answer
  of that attempt to that question is stored already
  (\<^verbatim>\<open>UNIQUE(attempt_id, question_id)\<close>), when \<^verbatim>\<open>attempt_id\<close> or \<^verbatim>\<open>question_id\<close> refers to no
  row (\<^verbatim>\<open>REFERENCES test_attempts(id)\<close>, \<^verbatim>\<open>REFERENCES questions(id)\<close>) and when the answer is
  not one of the four letters (\<^verbatim>\<open>CHECK (selected_answer IN ('A', 'B', 'C', 'D'))\<close>).
\<close>

definition upsert_answer :: "env \<Rightarrow> student_answer \<Rightarrow> db \<Rightarrow> db option" where
  "upsert_answer e row s =
     (if down e UpsertAnswer then None
      else if (attempt_id row, question_id row)
                \<in> set (map (\<lambda>a. (attempt_id a, question_id a)) (student_answers s)) then None
      else if attempt_id row \<notin> set (map attempt_pk (test_attempts s)) then None
      else if question_id row \<notin> set (map question_pk (questions s)) then None
      else if selected_answer row \<notin> set [''A'', ''B'', ''C'', ''D''] then None
      else Some (s\<lparr>student_answers := student_answers s @ [row]\<rparr>))"

text \<open>
  \<^verbatim>\<open>update({submitted_at, score, is_completed: true}).eq('id', attemptId)\<close>: every row with
  that id is rewritten; matching no row is not an error, and no constraint of the schema
  can refuse the new values.
\<close>

definition update_attempt :: "env \<Rightarrow> uuid \<Rightarrow> timestamp \<Rightarrow> rat \<Rightarrow> db \<Rightarrow> db option" where
  "update_attempt e attemptId t sc s =
     (if down e UpdateAttempt then None
      else Some (s\<lparr>test_attempts :=
              map (\<lambda>a. if attempt_pk a = attemptId
                        then a\<lparr>submitted_at := Some t, score := sc, is_completed := True\<rparr>
                        else a)
                  (test_attempts s)\<rparr>))"

section \<open>The handlers\<close>

record result =
  res_score :: rat
  res_attempted :: nat
  res_correct :: nat
  res_incorrect :: nat
  res_unattempted :: int

text \<open>
  A response is the JSON body with its status: \<open>Error status message\<close> for
  \<^verbatim>\<open>{ error: message }\<close>, \<open>Started\<close> for \<^verbatim>\<open>{ attemptId, startedAt }\<close>, \<open>Success\<close> for
  \<^verbatim>\<open>{ success: true }\<close> and \<open>Submitted\<close> for
  \<^verbatim>\<open>{ score, attempted, correct, incorrect, unattempted }\<close>.
\<close>

datatype response =
  Error nat string
  | Started uuid timestamp
  | Success
  | Submitted result

subsection \<open>\<^verbatim>\<open>case 'start-test'\<close>\<close>

definition start_test :: "env \<Rightarrow> uuid \<Rightarrow> uuid \<Rightarrow> db \<Rightarrow> response \<times> db" where
  "start_test e studentId testId s =
     (case (if down e ReadTest then None
            else single_row (filter (\<lambda>t. test_pk t = testId \<and> is_active t) (tests s))) of
        None \<Rightarrow> (Error 400 ''Test not found or not active'', s)
      | Some t \<Rightarrow>
          if clock e < start_time t \<or> clock e > end_time t
          then (Error 400 ''Test is not available at this time'', s)
          else
            (case (if down e ReadExistingAttempt then None
                   else single_row (filter (\<lambda>a. student_id a = studentId \<and> test_id a = testId)
                                      (test_attempts s))) of
               Some existingAttempt \<Rightarrow>
                 if is_completed existingAttempt
                 then (Error 400 ''You have already completed this test'', s)
                 else (Started (attempt_pk existingAttempt) (started_at existingAttempt), s)
             | None \<Rightarrow>
                 (case insert_attempt e studentId testId s of
                    None \<Rightarrow> (Error 500 ''Failed to start test'', s)
                  | Some (attempt, s') \<Rightarrow>
                      (Started (attempt_pk attempt) (started_at attempt), s'))))"

subsection \<open>\<^verbatim>\<open>case 'submit-answer'\<close>\<close>

text \<open>
  \<^verbatim>\<open>question?.correct_answer === selectedAnswer\<close>: strict equality of two strings, and
  \<^verbatim>\<open>undefined === selectedAnswer\<close>, which is false, when no question was read.
\<close>

definition submit_answer :: "env \<Rightarrow> uuid \<Rightarrow> uuid \<Rightarrow> string \<Rightarrow> db \<Rightarrow> response \<times> db" where
  "submit_answer e attemptId questionId selectedAnswer s =
     (let question = (if down e ReadQuestion then None
                      else single_row (filter (\<lambda>q. question_pk q = questionId) (questions s)));
          isCorrect = (case question of
                         None \<Rightarrow> False
                       | Some q \<Rightarrow> correct_answer q = selectedAnswer)
      in case upsert_answer e \<lparr>attempt_id = attemptId, question_id = questionId,
                                selected_answer = selectedAnswer, is_correct = isCorrect\<rparr> s of
           None \<Rightarrow> (Error 500 ''Failed to save answer'', s)
         | Some s' \<Rightarrow> (Success, s'))"

subsection \<open>\<^verbatim>\<open>case 'submit-test'\<close>\<close>

text \<open>
  The \<^verbatim>\<open>forEach\<close> over the answers, on the three counters \<^verbatim>\<open>score\<close>, \<^verbatim>\<open>correct\<close>,
  \<^verbatim>\<open>incorrect\<close>.
\<close>

fun score_loop :: "student_answer list \<Rightarrow> rat \<times> nat \<times> nat \<Rightarrow> rat \<times> nat \<times> nat" where
  "score_loop [] acc = acc"
| "score_loop (answer # answers) (sc, correct, incorrect) =
     (if is_correct answer
      then score_loop answers (sc + 1, correct + 1, incorrect)
      else score_loop answers (sc - 1 / 4, correct, incorrect + 1))"

text \<open>
  \<^verbatim>\<open>answers\<close> is \<^verbatim>\<open>null\<close> when the read fails: then \<^verbatim>\<open>answers?.forEach\<close> does nothing and
  \<^verbatim>\<open>answers?.length || 0\<close> is \<^verbatim>\<open>0\<close>. \<^verbatim>\<open>unattempted\<close> is \<^verbatim>\<open>40 - attempted\<close>, an integer
  that is negative for more than forty answers.
\<close>

definition submit_test :: "env \<Rightarrow> uuid \<Rightarrow> db \<Rightarrow> response \<times> db" where
  "submit_test e attemptId s =
     (let answers = (if down e ReadAnswers then None
                     else Some (filter (\<lambda>a. attempt_id a = attemptId) (student_answers s)));
          (sc, correct, incorrect) =
             (case answers of None \<Rightarrow> (0, 0, 0) | Some as \<Rightarrow> score_loop as (0, 0, 0));
          attempted = (case answers of None \<Rightarrow> 0 | Some as \<Rightarrow> length as);
          unattempted = 40 - int attempted
      in case update_attempt e attemptId (clock e) sc s of
           None \<Rightarrow> (Error 500 ''Failed to submit test'', s)
         | Some s' \<Rightarrow>
             (Submitted \<lparr>res_score = sc, res_attempted = attempted, res_correct = correct,
                         res_incorrect = incorrect, res_unattempted = unattempted\<rparr>, s'))"

subsection \<open>Two \<^verbatim>\<open>submit-test\<close> requests at once\<close>

text \<open>
  A request of \<^verbatim>\<open>submit-test\<close> reaches the store twice, at its two \<^verbatim>\<open>await\<close>s: the read of
  the answers and the update of the attempt. Between them it only computes. The three
  parts of the handler, cut at these calls: \<open>read_answers\<close> is the \<^verbatim>\<open>select\<close>,
  \<open>score_answers\<close> the counters computed from what was read, \<open>write_attempt\<close> the
  \<^verbatim>\<open>update\<close> and the response.
\<close>

definition read_answers :: "env \<Rightarrow> uuid \<Rightarrow> db \<Rightarrow> student_answer list option" where
  "read_answers e attemptId s =
     (if down e ReadAnswers then None
      else Some (filter (\<lambda>a. attempt_id a = attemptId) (student_answers s)))"

definition score_answers :: "student_answer list option \<Rightarrow> result" where
  "score_answers answers =
     (let (sc, correct, incorrect) =
             (case answers of None \<Rightarrow> (0, 0, 0) | Some as \<Rightarrow> score_loop as (0, 0, 0));
          attempted = (case answers of None \<Rightarrow> 0 | Some as \<Rightarrow> length as);
          unattempted = 40 - int attempted
      in \<lparr>res_score = sc, res_attempted = attempted, res_correct = correct,
          res_incorrect = incorrect, res_unattempted = unattempted\<rparr>)"

definition write_attempt :: "env \<Rightarrow> uuid \<Rightarrow> result \<Rightarrow> db \<Rightarrow> response \<times> db" where
  "write_attempt e attemptId r s =
     (case update_attempt e attemptId (clock e) (res_score r) s of
        None \<Rightarrow> (Error 500 ''Failed to submit test'', s)
      | Some s' \<Rightarrow> (Submitted r, s'))"

text \<open>
  A request in flight is before its read, between its read and its update (holding the
  counters it computed), or answered. \<open>step\<close> lets one request make its next call on the
  store. Two requests for the same attempt run under a schedule: at \<open>True\<close> the first
  request makes its next call, at \<open>False\<close> the second.
\<close>

datatype request = Pending | Scored result | Responded response

definition step :: "env \<Rightarrow> uuid \<Rightarrow> request \<Rightarrow> db \<Rightarrow> request \<times> db" where
  "step e attemptId q s =
     (case q of
        Pending \<Rightarrow> (Scored (score_answers (read_answers e attemptId s)), s)
      | Scored r \<Rightarrow> (case write_attempt e attemptId r s of (resp, s') \<Rightarrow> (Responded resp, s'))
      | Responded resp \<Rightarrow> (Responded resp, s))"

fun run :: "env \<Rightarrow> env \<Rightarrow> uuid \<Rightarrow> bool list \<Rightarrow> request \<times> request \<times> db
    \<Rightarrow> request \<times> request \<times> db" where
  "run e1 e2 attemptId [] c = c"
| "run e1 e2 attemptId (b # bs) (q1, q2, s) =
     (if b
      then (case step e1 attemptId q1 s of (q1', s') \<Rightarrow> run e1 e2 attemptId bs (q1', q2, s'))
      else (case step e2 attemptId q2 s of (q2', s') \<Rightarrow> run e1 e2 attemptId bs (q1, q2', s')))"

subsection \<open>The client's admission check: \<^verbatim>\<open>loadActiveTest\<close>\<close>

text \<open>
  The first part of \<^verbatim>\<open>loadActiveTest\<close> in the student's test page, from the read of the
  active test to \<^verbatim>\<open>setCurrentTest(tests)\<close>: each \<open>Inl\<close> is a \<^verbatim>\<open>setError(...); return\<close>,
  \<open>Inr\<close> is the test the function goes on with. The read has no filter on the id, so
  \<^verbatim>\<open>.single()\<close> fails when no test or more than one test is active.
  \<open>toLocaleString\<close> is \<^verbatim>\<open>Date.prototype.toLocaleString\<close>, which depends on the
  browser's locale.
\<close>

definition loadActiveTest_gate :: "(timestamp \<Rightarrow> string) \<Rightarrow> env \<Rightarrow> db \<Rightarrow> string + test" where
  "loadActiveTest_gate toLocaleString e s =
     (case (if down e ReadActiveTest then None
            else single_row (filter is_active (tests s))) of
        None \<Rightarrow> Inl ''No active test available at the moment.''
      | Some t \<Rightarrow>
          if clock e < start_time t
          then Inl (''Test will start at '' @ toLocaleString (start_time t))
          else if clock e > end_time t
          then Inl ''Test time has expired.''
          else Inr t)"

section \<open>The specification's notions\<close>

text \<open>
  The TimeWindow Guard of the specification, in its words: a test is admissible iff
  \<^verbatim>\<open>test.is_active == true AND test.start_time <= now <= test.end_time\<close>.
\<close>

definition admissible :: "test \<Rightarrow> timestamp \<Rightarrow> bool" where
  "admissible t now \<longleftrightarrow> is_active t \<and> start_time t \<le> now \<and> now \<le> end_time t"

text \<open>
  \<^verbatim>\<open>TestUnavailable\<close> (time-window/activation failure) is not a value of the code; the
  two responses of \<^verbatim>\<open>start-test\<close> that deny the test itself stand for it.
\<close>

definition TestUnavailable :: "response \<Rightarrow> bool" where
  "TestUnavailable r \<longleftrightarrow>
     r = Error 400 ''Test not found or not active'' \<or>
     r = Error 400 ''Test is not available at this time''"

text \<open>
  The counts of a finalization as the specification relates them to a number of questions:
  \<^verbatim>\<open>attempted = correct + incorrect\<close>, \<^verbatim>\<open>unattempted = total_questions - attempted\<close>.
\<close>

definition counts_for :: "nat \<Rightarrow> result \<Rightarrow> bool" where
  "counts_for n r \<longleftrightarrow>
     res_attempted r = res_correct r + res_incorrect r \<and>
     res_unattempted r = int n - int (res_attempted r)"

text \<open>The rows of one attempt, and how many of them are marked correct and incorrect.\<close>

definition answers_of :: "uuid \<Rightarrow> db \<Rightarrow> student_answer list" where
  "answers_of attemptId s = filter (\<lambda>a. attempt_id a = attemptId) (student_answers s)"

definition count_correct :: "uuid \<Rightarrow> db \<Rightarrow> nat" where
  "count_correct attemptId s = length (filter is_correct (answers_of attemptId s))"

definition count_incorrect :: "uuid \<Rightarrow> db \<Rightarrow> nat" where
  "count_incorrect attemptId s = length (filter (\<lambda>a. \<not> is_correct a) (answers_of attemptId s))"

section \<open>Concrete stores\<close>

text \<open>A request served by a store that answers every call.\<close>

definition env_at :: "timestamp \<Rightarrow> env" where
  "env_at t = \<lparr>down = (\<lambda>_. False), clock = t, clock_insert = t, new_id = ''a2''\<rparr>"

text \<open>
  One active test of ten questions, open from the first to the third hour (in
  milliseconds), with two questions; the second question's letter is stored in lower
  case, which the questions table accepts
  (\<^verbatim>\<open>CHECK (correct_answer IN ('A', 'B', 'C', 'D', 'a', 'b', 'c', 'd'))\<close>).
\<close>

definition test1 :: test where
  "test1 = \<lparr>test_pk = ''t1'', start_time = 3600000, end_time = 10800000,
            duration_minutes = 60, total_questions = 10, is_active = True\<rparr>"

definition question1 :: question where
  "question1 = \<lparr>question_pk = ''q1'', owner_test = ''t1'', correct_answer = ''A''\<rparr>"

definition question2 :: question where
  "question2 = \<lparr>question_pk = ''q2'', owner_test = ''t1'', correct_answer = ''b''\<rparr>"

definition attempt1 :: test_attempt where
  "attempt1 = \<lparr>attempt_pk = ''a1'', student_id = ''s1'', test_id = ''t1'',
               started_at = 7000000, submitted_at = None, score = 0, is_completed = False\<rparr>"

definition answer1 :: student_answer where
  "answer1 = \<lparr>attempt_id = ''a1'', question_id = ''q1'', selected_answer = ''A'',
              is_correct = True\<rparr>"

text \<open>The store before the student starts, with the attempt open, and with one answer.\<close>

definition db_fresh :: db where
  "db_fresh = \<lparr>students = [''s1''], tests = [test1], questions = [question1, question2],
               test_attempts = [], student_answers = []\<rparr>"

definition db_open :: db where
  "db_open = db_fresh\<lparr>test_attempts := [attempt1]\<rparr>"

definition db_answered :: db where
  "db_answered = db_open\<lparr>student_answers := [answer1]\<rparr>"

text \<open>The store before the student starts, with the test switched off.\<close>

definition db_inactive :: db where
  "db_inactive = db_fresh\<lparr>tests := [test1\<lparr>is_active := False\<rparr>]\<rparr>"

text \<open>The store with a second active test beside the first.\<close>

definition test2 :: test where
  "test2 = \<lparr>test_pk = ''t2'', start_time = 3600000, end_time = 10800000,
            duration_minutes = 60, total_questions = 40, is_active = True\<rparr>"

definition db_two :: db where
  "db_two = db_fresh\<lparr>tests := [test1, test2]\<rparr>"

text \<open>The same store after the attempt was submitted at 7100000.\<close>

definition db_done :: db where
  "db_done = db_answered\<lparr>test_attempts :=
     [attempt1\<lparr>submitted_at := Some 7100000, score := 1, is_completed := True\<rparr>]\<rparr>"

text \<open>
  An attempt with ten answers marked correct and five marked incorrect, on a test of
  forty questions.
\<close>

definition db_scored :: db where
  "db_scored =
     \<lparr>students = [''s1''],
      tests = [test1\<lparr>total_questions := 40\<rparr>],
      questions = [],
      test_attempts = [attempt1],
      student_answers =
        map (\<lambda>q. \<lparr>attempt_id = ''a1'', question_id = q, selected_answer = ''A'',
                    is_correct = True\<rparr>)
            [''c0'', ''c1'', ''c2'', ''c3'', ''c4'', ''c5'', ''c6'', ''c7'', ''c8'', ''c9'']
        @ map (\<lambda>q. \<lparr>attempt_id = ''a1'', question_id = q, selected_answer = ''B'',
                      is_correct = False\<rparr>)
            [''w0'', ''w1'', ''w2'', ''w3'', ''w4'']\<rparr>"

section \<open>Scoring\<close>

lemma score_loop_acc:
  "score_loop as (sc, c, i) =
     (sc + of_nat (length (filter is_correct as))
         - of_nat (length (filter (\<lambda>a. \<not> is_correct a) as)) / 4,
      c + length (filter is_correct as),
      i + length (filter (\<lambda>a. \<not> is_correct a) as))"
  by (induction as arbitrary: sc c i) (simp_all add: field_simps)

lemma submit_test_eq:
  assumes "\<not> down e ReadAnswers" and "\<not> down e UpdateAttempt"
  shows "submit_test e attemptId s =
           (Submitted \<lparr>res_score = of_nat (count_correct attemptId s)
                                     - of_nat (count_incorrect attemptId s) / 4,
                       res_attempted = length (answers_of attemptId s),
                       res_correct = count_correct attemptId s,
                       res_incorrect = count_incorrect attemptId s,
                       res_unattempted = 40 - int (length (answers_of attemptId s))\<rparr>,
            s\<lparr>test_attempts :=
                 map (\<lambda>a. if attempt_pk a = attemptId
                           then a\<lparr>submitted_at := Some (clock e),
                                  score := of_nat (count_correct attemptId s)
                                           - of_nat (count_incorrect attemptId s) / 4,
                                  is_completed := True\<rparr>
                           else a)
                     (test_attempts s)\<rparr>)"
  using assms
  by (simp add: submit_test_def update_attempt_def score_loop_acc answers_of_def
      count_correct_def count_incorrect_def Let_def)

text \<open>
  C4. With \<open>c\<close> recorded answers marked correct and \<open>i\<close> marked incorrect,
  \<^verbatim>\<open>submit-test\<close> returns and stores the score \<open>c * 1 + i * (-0.25)\<close>, an exact
  rational in which the questions without an answer do not occur; ten correct and five
  incorrect answers give \<open>8.75\<close>.
\<close>

theorem submit_test_score:
  assumes "\<not> down e ReadAnswers" and "\<not> down e UpdateAttempt"
    and "count_correct attemptId s = c" and "count_incorrect attemptId s = i"
  shows "\<exists>r s'. submit_test e attemptId s = (Submitted r, s') \<and>
           res_score r = of_nat c * 1 + of_nat i * (- 1 / 4) \<and>
           res_correct r = c \<and> res_incorrect r = i \<and>
           (\<forall>a \<in> set (test_attempts s').
              attempt_pk a = attemptId \<longrightarrow> score a = of_nat c * 1 + of_nat i * (- 1 / 4))"
proof -
  let ?sc = "of_nat c * 1 + of_nat i * (- 1 / 4) :: rat"
  let ?upd = "\<lambda>a. if attempt_pk a = attemptId
                   then a\<lparr>submitted_at := Some (clock e), score := ?sc, is_completed := True\<rparr>
                   else a"
  let ?r = "\<lparr>res_score = ?sc, res_attempted = length (answers_of attemptId s),
              res_correct = c, res_incorrect = i,
              res_unattempted = 40 - int (length (answers_of attemptId s))\<rparr>"
  let ?s' = "s\<lparr>test_attempts := map ?upd (test_attempts s)\<rparr>"
  have eq: "submit_test e attemptId s = (Submitted ?r, ?s')"
    using submit_test_eq [OF assms(1,2), of attemptId s] assms(3,4) by simp
  have upd: "attempt_pk (?upd x) = attemptId \<longrightarrow> score (?upd x) = ?sc" for x
    by simp
  have stored: "\<forall>a \<in> set (map ?upd (test_attempts s)). attempt_pk a = attemptId \<longrightarrow> score a = ?sc"
    unfolding set_map ball_simps using upd by blast
  have rows: "test_attempts ?s' = map ?upd (test_attempts s)"
    by simp
  show ?thesis
  proof (intro exI conjI)
    show "submit_test e attemptId s = (Submitted ?r, ?s')"
      by (rule eq)
    show "res_score ?r = ?sc" "res_correct ?r = c" "res_incorrect ?r = i"
      by simp_all
    show "\<forall>a \<in> set (test_attempts ?s'). attempt_pk a = attemptId \<longrightarrow> score a = ?sc"
      unfolding rows by (rule stored)
  qed
qed

theorem submit_test_score_witness:
  "count_correct ''a1'' db_scored = 10 \<and> count_incorrect ''a1'' db_scored = 5 \<and>
   fst (submit_test (env_at 7100000) ''a1'' db_scored) =
     Submitted \<lparr>res_score = 35 / 4, res_attempted = 15, res_correct = 10, res_incorrect = 5,
                res_unattempted = 25\<rparr> \<and>
   map score (test_attempts (snd (submit_test (env_at 7100000) ''a1'' db_scored))) = [35 / 4]"
proof -
  have up: "\<not> down (env_at 7100000) ReadAnswers" "\<not> down (env_at 7100000) UpdateAttempt"
    by (simp_all add: env_at_def)
  have c: "count_correct ''a1'' db_scored = 10"
    by (simp add: count_correct_def answers_of_def db_scored_def)
  have i: "count_incorrect ''a1'' db_scored = 5"
    by (simp add: count_incorrect_def answers_of_def db_scored_def)
  have n: "length (answers_of ''a1'' db_scored) = 15"
    by (simp add: answers_of_def db_scored_def)
  have rows: "test_attempts db_scored = [attempt1]" "attempt_pk attempt1 = ''a1''"
    by (simp_all add: db_scored_def attempt1_def)
  from submit_test_score [OF up c i] obtain r s' where
    run: "submit_test (env_at 7100000) ''a1'' db_scored = (Submitted r, s')"
    and r: "res_score r = 35 / 4"
    by auto
  from run submit_test_eq [OF up, of "''a1''" db_scored]
  have "r = \<lparr>res_score = 35 / 4, res_attempted = 15, res_correct = 10, res_incorrect = 5,
              res_unattempted = 25\<rparr>"
    and s': "test_attempts s' = [attempt1\<lparr>submitted_at := Some (clock (env_at 7100000)),
                                         score := 35 / 4, is_completed := True\<rparr>]"
    by (auto simp: c i n rows)
  with run c i show ?thesis
    by simp
qed

lemma submit_test_Submitted:
  assumes "submit_test e attemptId s = (Submitted r, s')"
    and "as = (if down e ReadAnswers then [] else answers_of attemptId s)"
  shows "r = \<lparr>res_score = of_nat (length (filter is_correct as))
                           - of_nat (length (filter (\<lambda>a. \<not> is_correct a) as)) / 4,
              res_attempted = length as,
              res_correct = length (filter is_correct as),
              res_incorrect = length (filter (\<lambda>a. \<not> is_correct a) as),
              res_unattempted = 40 - int (length as)\<rparr>"
  using assms
  by (auto simp: submit_test_def Let_def score_loop_acc answers_of_def
      simp del: filter_filter split: option.splits)

text \<open>
  C3 (as the code has it). A finalization returns \<open>attempted = correct + incorrect\<close> and
  \<open>unattempted = 40 - attempted\<close>, with the constant forty and not the test's
  \<open>total_questions\<close>: \<open>attempted + unattempted\<close> is forty for every attempt.
\<close>

theorem submit_test_counts:
  assumes "submit_test e attemptId s = (Submitted r, s')"
  shows "counts_for 40 r \<and> int (res_attempted r) + res_unattempted r = 40"
proof -
  define as where "as = (if down e ReadAnswers then [] else answers_of attemptId s)"
  have "length as = length (filter is_correct as) + length (filter (\<lambda>a. \<not> is_correct a) as)"
    by (simp add: sum_length_filter_compl)
  with submit_test_Submitted [OF assms as_def] show ?thesis
    by (simp add: counts_for_def)
qed

theorem submit_test_counts_witness:
  "submit_test (env_at 7100000) ''a1'' db_answered =
     (Submitted \<lparr>res_score = 1, res_attempted = 1, res_correct = 1, res_incorrect = 0,
                 res_unattempted = 39\<rparr>, db_done) \<and>
   counts_for 40 \<lparr>res_score = 1, res_attempted = 1, res_correct = 1, res_incorrect = 0,
                   res_unattempted = 39\<rparr>"
proof -
  have run: "submit_test (env_at 7100000) ''a1'' db_answered =
     (Submitted \<lparr>res_score = 1, res_attempted = 1, res_correct = 1, res_incorrect = 0,
                 res_unattempted = 39\<rparr>, db_done)"
    by (simp add: submit_test_def update_attempt_def env_at_def db_answered_def db_open_def
        db_fresh_def db_done_def attempt1_def answer1_def Let_def)
  show ?thesis
    using submit_test_counts [OF run] run by simp
qed

text \<open>
  C3 as stated fails: for an attempt with one answer on a test configured with ten
  questions, \<open>unattempted\<close> is 39 and not 9.
\<close>

theorem submit_test_counts_counterexample:
  "test_id attempt1 = test_pk test1 \<and> total_questions test1 = 10 \<and>
   fst (submit_test (env_at 7100000) ''a1'' db_answered) =
     Submitted \<lparr>res_score = 1, res_attempted = 1, res_correct = 1, res_incorrect = 0,
                res_unattempted = 39\<rparr> \<and>
   \<not> counts_for (total_questions test1)
        \<lparr>res_score = 1, res_attempted = 1, res_correct = 1, res_incorrect = 0,
         res_unattempted = 39\<rparr>"
  by (simp add: submit_test_def update_attempt_def env_at_def db_answered_def db_open_def
      db_fresh_def attempt1_def answer1_def test1_def counts_for_def Let_def)

section \<open>Admission\<close>

text \<open>A filter on a key whose values are distinct selects the one row that has the key.\<close>

lemma filter_key_empty:
  "k \<notin> set (map f xs) \<Longrightarrow> filter (\<lambda>y. f y = k \<and> P y) xs = []"
  by (induction xs) auto

lemma single_row_key:
  assumes "distinct (map f xs)" and "x \<in> set xs"
  shows "single_row (filter (\<lambda>y. f y = f x \<and> P y) xs) = (if P x then Some x else None)"
  using assms
proof (induction xs)
  case Nil
  then show ?case by simp
next
  case (Cons y ys)
  show ?case
  proof (cases "y = x")
    case True
    with Cons.prems have "f x \<notin> set (map f ys)" by simp
    then have "filter (\<lambda>y. f y = f x \<and> P y) ys = []"
      by (rule filter_key_empty)
    with True show ?thesis by simp
  next
    case False
    with Cons.prems have "x \<in> set ys" and "f y \<noteq> f x" and "distinct (map f ys)"
      by (auto simp: image_iff)
    with Cons.IH show ?thesis by simp
  qed
qed

text \<open>
  C7. For a test of the store and a request whose read of the test is answered,
  \<^verbatim>\<open>start-test\<close> denies the test (with either of its two denials) exactly when the test
  is not admissible: active, and \<open>start_time \<le> now \<le> end_time\<close> with both ends included.
\<close>

theorem start_test_admissible_iff:
  assumes "\<not> down e ReadTest" and "distinct (map test_pk (tests s))" and "t \<in> set (tests s)"
  shows "\<not> TestUnavailable (fst (start_test e studentId (test_pk t) s)) \<longleftrightarrow>
           admissible t (clock e)"
proof -
  have look: "single_row (filter (\<lambda>y. test_pk y = test_pk t \<and> is_active y) (tests s)) =
                (if is_active t then Some t else None)"
    using assms(2,3) by (rule single_row_key)
  show ?thesis
    using assms(1)
    by (auto simp: start_test_def look TestUnavailable_def admissible_def
        split: option.splits)
qed


text \<open>
  The test open from the first to the third hour is admitted at the second hour and at
  both ends of its window, and denied two hours after its end.
\<close>

theorem start_test_admissible_iff_witness:
  "admissible test1 7200000 \<and>
   \<not> TestUnavailable (fst (start_test (env_at 7200000) ''s1'' ''t1'' db_fresh)) \<and>
   \<not> admissible test1 18000000 \<and>
   TestUnavailable (fst (start_test (env_at 18000000) ''s1'' ''t1'' db_fresh)) \<and>
   admissible test1 3600000 \<and>
   \<not> TestUnavailable (fst (start_test (env_at 3600000) ''s1'' ''t1'' db_fresh)) \<and>
   admissible test1 10800000 \<and>
   \<not> TestUnavailable (fst (start_test (env_at 10800000) ''s1'' ''t1'' db_fresh))"
proof -
  have up: "\<not> down (env_at n) ReadTest" for n
    by (simp add: env_at_def)
  have pk: "distinct (map test_pk (tests db_fresh))" and mem: "test1 \<in> set (tests db_fresh)"
    by (simp_all add: db_fresh_def)
  have key: "test_pk test1 = ''t1''" and clk: "clock (env_at n) = n" for n
    by (simp_all add: test1_def env_at_def)
  have "admissible test1 7200000" "\<not> admissible test1 18000000"
    "admissible test1 3600000" "admissible test1 10800000"
    by (simp_all add: admissible_def test1_def)
  then show ?thesis
    using start_test_admissible_iff [OF up pk mem, of 7200000 "''s1''"]
      start_test_admissible_iff [OF up pk mem, of 18000000 "''s1''"]
      start_test_admissible_iff [OF up pk mem, of 3600000 "''s1''"]
      start_test_admissible_iff [OF up pk mem, of 10800000 "''s1''"]
    by (simp only: key clk simp_thms)
qed

section \<open>Recording answers\<close>

text \<open>
  C10 (as the code has it). For a \<open>questionId\<close> that is the id of no stored question
  there is no \<^verbatim>\<open>NotFound\<close>: the handler computes \<open>isCorrect = false\<close> and sends the
  upsert, the foreign key of \<^verbatim>\<open>student_answers.question_id\<close> refuses the row, and the
  response is the status 500 \<^verbatim>\<open>Failed to save answer\<close> with the store unchanged.
\<close>

theorem submit_answer_unknown_question:
  assumes "questionId \<notin> set (map question_pk (questions s))"
  shows "submit_answer e attemptId questionId selectedAnswer s =
           (Error 500 ''Failed to save answer'', s)"
  using assms by (simp add: submit_answer_def upsert_answer_def Let_def)

theorem submit_answer_unknown_question_witness:
  "''q9'' \<notin> set (map question_pk (questions db_open)) \<and>
   submit_answer (env_at 7050000) ''a1'' ''q9'' ''A'' db_open =
     (Error 500 ''Failed to save answer'', db_open)"
proof -
  have "''q9'' \<notin> set (map question_pk (questions db_open))"
    by (simp add: db_open_def db_fresh_def question1_def question2_def)
  then show ?thesis
    using submit_answer_unknown_question [of "''q9''" db_open] by simp
qed

text \<open>
  C10 as stated fails: the answer to the unknown question \<open>q7\<close> is not reported as a
  success and no row is persisted for it.
\<close>

theorem submit_answer_unknown_question_counterexample:
  "fst (submit_answer (env_at 7050000) ''a1'' ''q7'' ''C'' db_answered) \<noteq> Success \<and>
   student_answers (snd (submit_answer (env_at 7050000) ''a1'' ''q7'' ''C'' db_answered)) =
     [answer1]"
  by (simp add: submit_answer_def upsert_answer_def Let_def env_at_def db_answered_def
      db_open_def db_fresh_def question1_def question2_def attempt1_def)

text \<open>
  C6 (as the code has it). When \<^verbatim>\<open>submit-answer\<close> succeeds for a stored question, the
  row it stores carries the selected answer as it was sent, one of the four upper-case
  letters, and \<open>is_correct\<close> is the exact, case-sensitive equality with the question's
  \<open>correct_answer\<close>.
\<close>

theorem submit_answer_exact:
  assumes "\<not> down e ReadQuestion" and "distinct (map question_pk (questions s))"
    and "q \<in> set (questions s)"
    and "submit_answer e attemptId (question_pk q) selectedAnswer s = (Success, s')"
  shows "\<lparr>attempt_id = attemptId, question_id = question_pk q,
           selected_answer = selectedAnswer,
           is_correct = (correct_answer q = selectedAnswer)\<rparr> \<in> set (student_answers s') \<and>
         selectedAnswer \<in> set [''A'', ''B'', ''C'', ''D'']"
proof -
  have "single_row (filter (\<lambda>y. question_pk y = question_pk q \<and> True) (questions s)) =
          (if True then Some q else None)"
    using assms(2,3) by (rule single_row_key)
  then have look: "single_row (filter (\<lambda>y. question_pk y = question_pk q) (questions s)) = Some q"
    by simp
  let ?row = "\<lparr>attempt_id = attemptId, question_id = question_pk q,
                selected_answer = selectedAnswer,
                is_correct = (correct_answer q = selectedAnswer)\<rparr>"
  from assms(1,4) look
  have up: "upsert_answer e ?row s = Some s'"
    by (simp add: submit_answer_def Let_def split: option.splits)
  then have "student_answers s' = student_answers s @ [?row]"
    and "selectedAnswer \<in> set [''A'', ''B'', ''C'', ''D'']"
    by (auto simp: upsert_answer_def split: if_splits)
  then show ?thesis
    by simp
qed


theorem submit_answer_exact_witness:
  "submit_answer (env_at 7050000) ''a1'' ''q1'' ''A'' db_open = (Success, db_answered) \<and>
   \<lparr>attempt_id = ''a1'', question_id = ''q1'', selected_answer = ''A'',
    is_correct = (correct_answer question1 = ''A'')\<rparr> \<in> set (student_answers db_answered) \<and>
   answer1 \<in> set (student_answers db_answered)"
proof -
  have up: "\<not> down (env_at 7050000) ReadQuestion"
    by (simp add: env_at_def)
  have pk: "distinct (map question_pk (questions db_open))"
    and mem: "question1 \<in> set (questions db_open)"
    by (simp_all add: db_open_def db_fresh_def question1_def question2_def)
  have run: "submit_answer (env_at 7050000) ''a1'' (question_pk question1) ''A'' db_open =
               (Success, db_answered)"
    by (simp add: submit_answer_def upsert_answer_def Let_def env_at_def db_answered_def
        db_open_def db_fresh_def question1_def question2_def attempt1_def answer1_def)
  have key: "question_pk question1 = ''q1''"
    by (simp add: question1_def)
  show ?thesis
    using submit_answer_exact [OF up pk mem run] run
    by (simp add: key) (simp add: question1_def answer1_def)
qed

text \<open>
  C6 as stated fails: \<open>B\<close> against the stored letter \<open>b\<close> is recorded as incorrect, and
  the lower-case \<open>a\<close> against the stored \<open>A\<close> is refused by the store, so nothing is
  recorded for it, in upper case or otherwise.
\<close>

theorem submit_answer_exact_counterexample:
  "correct_answer question2 = ''b'' \<and>
   submit_answer (env_at 7050000) ''a1'' ''q2'' ''B'' db_open =
     (Success, db_open\<lparr>student_answers :=
        [\<lparr>attempt_id = ''a1'', question_id = ''q2'', selected_answer = ''B'',
          is_correct = False\<rparr>]\<rparr>) \<and>
   correct_answer question1 = ''A'' \<and>
   submit_answer (env_at 7050000) ''a1'' ''q1'' ''a'' db_open =
     (Error 500 ''Failed to save answer'', db_open)"
  by (simp add: submit_answer_def upsert_answer_def Let_def env_at_def
      db_open_def db_fresh_def question1_def question2_def attempt1_def)




section \<open>Submitting twice\<close>

text \<open>Finalization writes the attempts only; the answers it counts stay as they were.\<close>

lemma answers_of_attempts_update:
  "answers_of attemptId (s\<lparr>test_attempts := xs\<rparr>) = answers_of attemptId s"
  by (simp add: answers_of_def)

lemma count_attempts_update:
  "count_correct attemptId (s\<lparr>test_attempts := xs\<rparr>) = count_correct attemptId s"
  "count_incorrect attemptId (s\<lparr>test_attempts := xs\<rparr>) = count_incorrect attemptId s"
  by (simp_all add: count_correct_def count_incorrect_def answers_of_attempts_update)

text \<open>
  C1 (as the code has it). \<^verbatim>\<open>submit-test\<close> never reads \<open>is_completed\<close>. After a first
  finalization, a second one on a store that answers is not refused: it recomputes, returns
  the same \<open>{score, attempted, correct, incorrect, unattempted}\<close> as the first, leaves the
  stored score and the flag as they are, and overwrites \<open>submitted_at\<close> with its own time.
\<close>

theorem submit_test_again:
  assumes first: "submit_test e1 attemptId s = (Submitted r1, s1)"
    and up: "\<not> down e1 ReadAnswers" "\<not> down e2 ReadAnswers" "\<not> down e2 UpdateAttempt"
  shows "submit_test e2 attemptId s1 =
           (Submitted r1,
            s1\<lparr>test_attempts :=
                  map (\<lambda>a. if attempt_pk a = attemptId
                            then a\<lparr>submitted_at := Some (clock e2)\<rparr> else a)
                      (test_attempts s1)\<rparr>)"
proof -
  from first have up1: "\<not> down e1 UpdateAttempt"
    by (auto simp: submit_test_def update_attempt_def Let_def split: prod.splits)
  let ?sc = "of_nat (count_correct attemptId s) - of_nat (count_incorrect attemptId s) / 4 :: rat"
  let ?fin = "\<lambda>t a. if attempt_pk a = attemptId
                      then a\<lparr>submitted_at := Some t, score := ?sc, is_completed := True\<rparr>
                      else a"
  from first submit_test_eq [OF up(1) up1, of attemptId s]
  have r1: "r1 = \<lparr>res_score = ?sc, res_attempted = length (answers_of attemptId s),
                   res_correct = count_correct attemptId s,
                   res_incorrect = count_incorrect attemptId s,
                   res_unattempted = 40 - int (length (answers_of attemptId s))\<rparr>"
    and s1: "s1 = s\<lparr>test_attempts := map (?fin (clock e1)) (test_attempts s)\<rparr>"
    by simp_all
  have again: "?fin t2 (?fin t1 a) =
                 (if attempt_pk (?fin t1 a) = attemptId
                  then (?fin t1 a)\<lparr>submitted_at := Some t2\<rparr> else ?fin t1 a)" for t1 t2 a
    by simp
  have rows: "map (?fin (clock e2)) (map (?fin (clock e1)) (test_attempts s)) =
              map (\<lambda>a. if attempt_pk a = attemptId
                        then a\<lparr>submitted_at := Some (clock e2)\<rparr> else a)
                  (map (?fin (clock e1)) (test_attempts s))"
    unfolding map_map comp_def again ..
  show ?thesis
    using submit_test_eq [OF up(2,3), of attemptId s1] rows
    by (simp add: r1 s1 answers_of_attempts_update count_attempts_update)
qed

theorem submit_test_again_witness:
  "submit_test (env_at 7100000) ''a1'' db_answered =
     (Submitted \<lparr>res_score = 1, res_attempted = 1, res_correct = 1, res_incorrect = 0,
                 res_unattempted = 39\<rparr>, db_done) \<and>
   submit_test (env_at 7300000) ''a1'' db_done =
     (Submitted \<lparr>res_score = 1, res_attempted = 1, res_correct = 1, res_incorrect = 0,
                 res_unattempted = 39\<rparr>,
      db_done\<lparr>test_attempts :=
        [attempt1\<lparr>submitted_at := Some 7300000, score := 1, is_completed := True\<rparr>]\<rparr>)"
proof -
  have run: "submit_test (env_at 7100000) ''a1'' db_answered =
     (Submitted \<lparr>res_score = 1, res_attempted = 1, res_correct = 1, res_incorrect = 0,
                 res_unattempted = 39\<rparr>, db_done)"
    by (simp add: submit_test_def update_attempt_def env_at_def db_answered_def db_open_def
        db_fresh_def db_done_def attempt1_def answer1_def Let_def)
  have up: "\<not> down (env_at 7100000) ReadAnswers" "\<not> down (env_at 7300000) ReadAnswers"
    "\<not> down (env_at 7300000) UpdateAttempt"
    by (simp_all add: env_at_def)
  show ?thesis
    using submit_test_again [OF run up] run
    by (simp add: db_done_def attempt1_def env_at_def)
qed

text \<open>
  C1 as stated fails: the second finalization of the completed attempt of \<open>db_done\<close> moves
  \<open>submitted_at\<close> from 7100000 to 7300000, and after an answer recorded in between it
  stores the score \<open>0.75\<close> in place of \<open>1\<close>.
\<close>

theorem submit_test_again_counterexample:
  "map is_completed (test_attempts db_done) = [True] \<and>
   map submitted_at (test_attempts db_done) = [Some 7100000] \<and>
   map submitted_at (test_attempts (snd (submit_test (env_at 7300000) ''a1'' db_done))) =
     [Some 7300000] \<and>
   snd (submit_test (env_at 7300000) ''a1'' db_done) \<noteq> db_done \<and>
   map score (test_attempts db_done) = [1] \<and>
   map score (test_attempts (snd (submit_test (env_at 7300000) ''a1''
      (snd (submit_answer (env_at 7200000) ''a1'' ''q2'' ''B'' db_done))))) = [3 / 4]"
  by (simp add: submit_test_def update_attempt_def submit_answer_def upsert_answer_def
      env_at_def db_done_def db_answered_def db_open_def db_fresh_def attempt1_def answer1_def
      question1_def question2_def Let_def)

section \<open>Starting twice\<close>

lemma start_test_existing:
  assumes "\<not> down e ReadTest" and "\<not> down e ReadExistingAttempt"
    and "single_row (filter (\<lambda>y. test_pk y = testId \<and> is_active y) (tests s)) = Some t"
    and "start_time t \<le> clock e" and "clock e \<le> end_time t"
    and "single_row (filter (\<lambda>a. student_id a = studentId \<and> test_id a = testId)
           (test_attempts s)) = Some a"
    and "\<not> is_completed a"
  shows "start_test e studentId testId s = (Started (attempt_pk a) (started_at a), s)"
  using assms by (simp add: start_test_def)

lemma insert_attempt_Some:
  assumes "insert_attempt e studentId testId s = Some (row, s')"
  shows "row = \<lparr>attempt_pk = new_id e, student_id = studentId, test_id = testId,
                started_at = clock_insert e, submitted_at = None, score = 0,
                is_completed = False\<rparr>"
    and "s' = s\<lparr>test_attempts := test_attempts s @ [row]\<rparr>"
    and "(studentId, testId) \<notin> set (map (\<lambda>a. (student_id a, test_id a)) (test_attempts s))"
  using assms by (auto simp: insert_attempt_def Let_def split: if_splits)

lemma filter_pair_empty:
  "(studentId, testId) \<notin> set (map (\<lambda>a. (student_id a, test_id a)) xs) \<Longrightarrow>
     filter (\<lambda>a. student_id a = studentId \<and> test_id a = testId) xs = []"
  by (induction xs) auto


text \<open>\<^verbatim>\<open>start-test\<close> keeps \<^verbatim>\<open>UNIQUE(student_id, test_id)\<close>.\<close>

lemma start_test_keeps_unique:
  assumes "distinct (map (\<lambda>a. (student_id a, test_id a)) (test_attempts s))"
  shows "distinct (map (\<lambda>a. (student_id a, test_id a))
           (test_attempts (snd (start_test e studentId testId s))))"
proof (cases "insert_attempt e studentId testId s")
  case None
  with assms show ?thesis
    by (simp add: start_test_def split: option.splits)
next
  case (Some p)
  obtain row s' where p: "p = (row, s')"
    by (cases p)
  note new = insert_attempt_Some [OF Some [unfolded p]]
  from assms new(3) have "distinct (map (\<lambda>a. (student_id a, test_id a)) (test_attempts s'))"
    by (simp add: new(2)) (simp add: new(1))
  with assms Some p show ?thesis
    by (simp add: start_test_def split: option.splits)
qed

text \<open>
  C5. For an admissible test and a store that answers the reads and keeps its keys
  unique, \<^verbatim>\<open>start-test\<close> returns an existing attempt of the student that is not completed,
  with its id and its original \<open>started_at\<close>, and writes nothing; and whatever attempt a
  first \<^verbatim>\<open>start-test\<close> returned, created or resumed, a second one returns the same id and
  \<open>started_at\<close> and leaves the store as the first left it.
\<close>

theorem start_test_resume:
  assumes up: "\<not> down e ReadTest" "\<not> down e ReadExistingAttempt"
    and up': "\<not> down e' ReadTest" "\<not> down e' ReadExistingAttempt"
    and pk: "distinct (map test_pk (tests s))" and t: "t \<in> set (tests s)"
    and uq: "distinct (map (\<lambda>a. (student_id a, test_id a)) (test_attempts s))"
    and adm: "admissible t (clock e)" "admissible t (clock e')"
  shows "(\<forall>a \<in> set (test_attempts s).
            student_id a = studentId \<and> test_id a = test_pk t \<and> \<not> is_completed a \<longrightarrow>
            start_test e studentId (test_pk t) s = (Started (attempt_pk a) (started_at a), s)) \<and>
         (\<forall>attemptId startedAt s1.
            start_test e studentId (test_pk t) s = (Started attemptId startedAt, s1) \<longrightarrow>
            start_test e' studentId (test_pk t) s1 = (Started attemptId startedAt, s1))"
proof -
  have "single_row (filter (\<lambda>y. test_pk y = test_pk t \<and> is_active y) (tests s)) =
          (if is_active t then Some t else None)"
    using pk t by (rule single_row_key)
  with adm(1) have look_t:
    "single_row (filter (\<lambda>y. test_pk y = test_pk t \<and> is_active y) (tests s)) = Some t"
    by (simp add: admissible_def)
  from adm have win: "start_time t \<le> clock e" "clock e \<le> end_time t"
    "start_time t \<le> clock e'" "clock e' \<le> end_time t"
    by (simp_all add: admissible_def)
  show ?thesis
  proof (intro conjI ballI allI impI)
    fix a
    assume a: "a \<in> set (test_attempts s)"
      and own: "student_id a = studentId \<and> test_id a = test_pk t \<and> \<not> is_completed a"
    have "single_row (filter (\<lambda>y. (student_id y, test_id y) = (student_id a, test_id a) \<and> True)
            (test_attempts s)) = (if True then Some a else None)"
      using uq a by (rule single_row_key)
    with own have look_a:
      "single_row (filter (\<lambda>y. student_id y = studentId \<and> test_id y = test_pk t)
         (test_attempts s)) = Some a"
      by simp
    from own show "start_test e studentId (test_pk t) s = (Started (attempt_pk a) (started_at a), s)"
      using start_test_existing [OF up look_t win(1,2) look_a] by simp
  next
    fix attemptId startedAt s1
    assume first: "start_test e studentId (test_pk t) s = (Started attemptId startedAt, s1)"
    let ?look = "single_row (filter (\<lambda>a. student_id a = studentId \<and> test_id a = test_pk t)
                   (test_attempts s))"
    show "start_test e' studentId (test_pk t) s1 = (Started attemptId startedAt, s1)"
    proof (cases ?look)
      case (Some a)
      with first up look_t win(1,2)
      have "\<not> is_completed a" and "attemptId = attempt_pk a" and "startedAt = started_at a"
        and "s1 = s"
        by (auto simp: start_test_def split: if_splits)
      with Some show ?thesis
        using start_test_existing [OF up' look_t win(3,4), of studentId a] by simp
    next
      case None
      with first up look_t win(1,2)
      obtain row where ins: "insert_attempt e studentId (test_pk t) s = Some (row, s1)"
        and res: "attemptId = attempt_pk row" "startedAt = started_at row"
        by (auto simp: start_test_def split: if_splits option.splits)
      note new = insert_attempt_Some [OF ins]
      have tests1: "tests s1 = tests s"
        by (simp add: new(2))
      have "filter (\<lambda>a. student_id a = studentId \<and> test_id a = test_pk t) (test_attempts s1) =
              [row]"
        using filter_pair_empty [OF new(3)] by (simp add: new(2)) (simp add: new(1))
      then have look_a:
        "single_row (filter (\<lambda>a. student_id a = studentId \<and> test_id a = test_pk t)
           (test_attempts s1)) = Some row"
        by simp
      have "\<not> is_completed row"
        by (simp add: new(1))
      with look_a show ?thesis
        using start_test_existing [OF up', of "test_pk t" s1 t studentId row] look_t win(3,4)
        by (simp add: tests1 res)
    qed
  qed
qed

theorem start_test_resume_witness:
  "start_test (env_at 7200000) ''s1'' ''t1'' db_open = (Started ''a1'' 7000000, db_open) \<and>
   start_test (env_at 7250000) ''s1'' ''t1'' db_open = (Started ''a1'' 7000000, db_open) \<and>
   start_test (env_at 7200000) ''s1'' ''t1'' db_fresh =
     (Started ''a2'' 7200000,
      db_fresh\<lparr>test_attempts := [attempt1\<lparr>attempt_pk := ''a2'', started_at := 7200000\<rparr>]\<rparr>) \<and>
   start_test (env_at 7250000) ''s1'' ''t1''
      (db_fresh\<lparr>test_attempts := [attempt1\<lparr>attempt_pk := ''a2'', started_at := 7200000\<rparr>]\<rparr>) =
     (Started ''a2'' 7200000,
      db_fresh\<lparr>test_attempts := [attempt1\<lparr>attempt_pk := ''a2'', started_at := 7200000\<rparr>]\<rparr>)"
proof -
  let ?e = "env_at 7200000" and ?e' = "env_at 7250000"
  have up: "\<not> down ?e ReadTest" "\<not> down ?e ReadExistingAttempt"
    "\<not> down ?e' ReadTest" "\<not> down ?e' ReadExistingAttempt"
    by (simp_all add: env_at_def)
  have adm: "admissible test1 (clock ?e)" "admissible test1 (clock ?e')"
    by (simp_all add: admissible_def test1_def env_at_def)
  have key: "test_pk test1 = ''t1''"
    by (simp add: test1_def)
  have pk: "distinct (map test_pk (tests db_open))" "distinct (map test_pk (tests db_fresh))"
    and t: "test1 \<in> set (tests db_open)" "test1 \<in> set (tests db_fresh)"
    and uq: "distinct (map (\<lambda>a. (student_id a, test_id a)) (test_attempts db_open))"
      "distinct (map (\<lambda>a. (student_id a, test_id a)) (test_attempts db_fresh))"
    by (simp_all add: db_open_def db_fresh_def)
  have a: "attempt1 \<in> set (test_attempts db_open)"
    and own: "student_id attempt1 = ''s1'' \<and> test_id attempt1 = ''t1'' \<and> \<not> is_completed attempt1"
    and row: "attempt_pk attempt1 = ''a1''" "started_at attempt1 = 7000000"
    by (simp_all add: db_open_def attempt1_def)
  note resume = start_test_resume [OF up pk(1) t(1) uq(1) adm, of "''s1''", unfolded key]
  note create = start_test_resume [OF up pk(2) t(2) uq(2) adm, of "''s1''", unfolded key]
  have first: "start_test ?e ''s1'' ''t1'' db_open = (Started ''a1'' 7000000, db_open)"
    using resume a own row by auto
  then have second: "start_test ?e' ''s1'' ''t1'' db_open = (Started ''a1'' 7000000, db_open)"
    using resume by blast
  have made: "start_test ?e ''s1'' ''t1'' db_fresh =
     (Started ''a2'' 7200000,
      db_fresh\<lparr>test_attempts := [attempt1\<lparr>attempt_pk := ''a2'', started_at := 7200000\<rparr>]\<rparr>)"
    by (simp add: start_test_def insert_attempt_def env_at_def db_fresh_def test1_def
        attempt1_def Let_def)
  then have "start_test ?e' ''s1'' ''t1''
      (db_fresh\<lparr>test_attempts := [attempt1\<lparr>attempt_pk := ''a2'', started_at := 7200000\<rparr>]\<rparr>) =
     (Started ''a2'' 7200000,
      db_fresh\<lparr>test_attempts := [attempt1\<lparr>attempt_pk := ''a2'', started_at := 7200000\<rparr>]\<rparr>)"
    using create by blast
  with first second made show ?thesis
    by simp
qed

section \<open>Denials\<close>

text \<open>\<^verbatim>\<open>.single()\<close> gives no row unless exactly one row matches.\<close>

lemma single_row_None: "length xs \<noteq> 1 \<Longrightarrow> single_row xs = None"
  by (cases xs rule: single_row.cases) simp_all

text \<open>
  C8 (as the code has it). For a test that is not admissible the server's \<^verbatim>\<open>start-test\<close>
  has two denials: one for a test that is not active, one for an active test outside its
  window, the same before the start and after the end. The three-way distinction is the
  client's, and \<^verbatim>\<open>loadActiveTest\<close> checks no given test but the active tests of the store:
  when exactly one test is active and it is outside its window, the message names the
  start before the start and says expired after the end; when no test or more than one
  is active, the message is that no test is active. The three messages are pairwise
  different.
\<close>

theorem denial_reasons:
  assumes "\<not> down e ReadTest" and "\<not> down e ReadActiveTest"
    and "distinct (map test_pk (tests s))" and "t \<in> set (tests s)"
    and "\<not> admissible t (clock e)"
  shows "fst (start_test e studentId (test_pk t) s) =
           (if is_active t then Error 400 ''Test is not available at this time''
            else Error 400 ''Test not found or not active'') \<and>
         (filter is_active (tests s) = [t'] \<and> \<not> admissible t' (clock e) \<longrightarrow>
            loadActiveTest_gate toLocaleString e s =
              Inl (if clock e < start_time t'
                   then ''Test will start at '' @ toLocaleString (start_time t')
                   else ''Test time has expired.'')) \<and>
         (length (filter is_active (tests s)) \<noteq> 1 \<longrightarrow>
            loadActiveTest_gate toLocaleString e s =
              Inl ''No active test available at the moment.'') \<and>
         ''No active test available at the moment.'' \<noteq>
           ''Test will start at '' @ toLocaleString (start_time t') \<and>
         ''No active test available at the moment.'' \<noteq> ''Test time has expired.'' \<and>
         ''Test will start at '' @ toLocaleString (start_time t') \<noteq> ''Test time has expired.''"
proof -
  have look: "single_row (filter (\<lambda>y. test_pk y = test_pk t \<and> is_active y) (tests s)) =
                (if is_active t then Some t else None)"
    using assms(3,4) by (rule single_row_key)
  have server: "fst (start_test e studentId (test_pk t) s) =
           (if is_active t then Error 400 ''Test is not available at this time''
            else Error 400 ''Test not found or not active'')"
    using assms(1,5) by (auto simp: start_test_def look admissible_def)
  have one: "filter is_active (tests s) = [t'] \<and> \<not> admissible t' (clock e) \<longrightarrow>
            loadActiveTest_gate toLocaleString e s =
              Inl (if clock e < start_time t'
                   then ''Test will start at '' @ toLocaleString (start_time t')
                   else ''Test time has expired.'')"
  proof
    assume a: "filter is_active (tests s) = [t'] \<and> \<not> admissible t' (clock e)"
    then have "t' \<in> set (filter is_active (tests s))"
      by simp
    then have "is_active t'"
      by simp
    with a assms(2) show "loadActiveTest_gate toLocaleString e s =
              Inl (if clock e < start_time t'
                   then ''Test will start at '' @ toLocaleString (start_time t')
                   else ''Test time has expired.'')"
      by (auto simp: loadActiveTest_gate_def admissible_def)
  qed
  have none: "length (filter is_active (tests s)) \<noteq> 1 \<longrightarrow>
            loadActiveTest_gate toLocaleString e s =
              Inl ''No active test available at the moment.''"
    by (simp add: loadActiveTest_gate_def single_row_None)
  from server one none show ?thesis
    by simp
qed

text \<open>
  C8 as stated fails: \<^verbatim>\<open>start-test\<close> gives the same response for the test before its
  start and after its end.
\<close>

theorem denial_reasons_counterexample:
  "is_active test1 \<and> clock (env_at 1000) < start_time test1 \<and>
   end_time test1 < clock (env_at 18000000) \<and>
   fst (start_test (env_at 1000) ''s1'' ''t1'' db_fresh) =
     fst (start_test (env_at 18000000) ''s1'' ''t1'' db_fresh)"
  by (simp add: start_test_def env_at_def db_fresh_def test1_def)

text \<open>
  The causes on the concrete stores, among them two active tests at once; the start time
  is shown as a browser in the \<^verbatim>\<open>en-US\<close> locale and UTC shows it.
\<close>

theorem denial_reasons_witness:
  "fst (start_test (env_at 7200000) ''s1'' ''t1'' db_inactive) =
     Error 400 ''Test not found or not active'' \<and>
   fst (start_test (env_at 1000) ''s1'' ''t1'' db_fresh) =
     Error 400 ''Test is not available at this time'' \<and>
   fst (start_test (env_at 18000000) ''s1'' ''t1'' db_fresh) =
     Error 400 ''Test is not available at this time'' \<and>
   loadActiveTest_gate (\<lambda>_. ''1/1/1970, 1:00:00 AM'') (env_at 7200000) db_inactive =
     Inl ''No active test available at the moment.'' \<and>
   loadActiveTest_gate (\<lambda>_. ''1/1/1970, 1:00:00 AM'') (env_at 1000) db_fresh =
     Inl ''Test will start at 1/1/1970, 1:00:00 AM'' \<and>
   loadActiveTest_gate (\<lambda>_. ''1/1/1970, 1:00:00 AM'') (env_at 18000000) db_fresh =
     Inl ''Test time has expired.'' \<and>
   loadActiveTest_gate (\<lambda>_. ''1/1/1970, 1:00:00 AM'') (env_at 18000000) db_two =
     Inl ''No active test available at the moment.''"
proof -
  let ?fmt = "\<lambda>_ :: timestamp. ''1/1/1970, 1:00:00 AM''"
  let ?off = "test1\<lparr>is_active := False\<rparr>"
  have up: "\<not> down (env_at n) ReadTest" "\<not> down (env_at n) ReadActiveTest" for n
    by (simp_all add: env_at_def)
  have clk: "clock (env_at n) = n" for n
    by (simp add: env_at_def)
  have pk: "distinct (map test_pk (tests db_fresh))" "distinct (map test_pk (tests db_inactive))"
    "distinct (map test_pk (tests db_two))"
    and mem: "test1 \<in> set (tests db_fresh)" "?off \<in> set (tests db_inactive)"
    "test1 \<in> set (tests db_two)"
    by (simp_all add: db_fresh_def db_inactive_def db_two_def test1_def test2_def)
  have act: "filter is_active (tests db_fresh) = [test1]"
    "filter is_active (tests db_inactive) = []"
    "filter is_active (tests db_two) = [test1, test2]"
    by (simp_all add: db_fresh_def db_inactive_def db_two_def test1_def test2_def)
  have row: "is_active test1" "\<not> is_active ?off" "test_pk test1 = ''t1''" "test_pk ?off = ''t1''"
    "start_time test1 = 3600000" "end_time test1 = 10800000"
    by (simp_all add: test1_def)
  have out: "\<not> admissible ?off (clock (env_at 7200000))" "\<not> admissible test1 (clock (env_at 1000))"
    "\<not> admissible test1 (clock (env_at 18000000))"
    by (simp_all add: admissible_def test1_def env_at_def)
  show ?thesis
    using denial_reasons [OF up pk(2) mem(2) out(1), of "''s1''" test1 ?fmt]
      denial_reasons [OF up pk(1) mem(1) out(2), of "''s1''" test1 ?fmt]
      denial_reasons [OF up pk(1) mem(1) out(3), of "''s1''" test1 ?fmt]
      denial_reasons [OF up pk(3) mem(3) out(3), of "''s1''" test1 ?fmt]
    by (simp add: act row clk admissible_def)
qed

section \<open>Two requests at once\<close>

text \<open>
  The handler is its three parts in a row, and the schedule that lets the first request
  finish before the second starts is two calls of the handler.
\<close>

lemma submit_test_steps:
  "submit_test e attemptId s =
     write_attempt e attemptId (score_answers (read_answers e attemptId s)) s"
  by (simp add: submit_test_def write_attempt_def score_answers_def read_answers_def Let_def
      split: prod.splits option.splits)

lemma run_sequential:
  "run e1 e2 attemptId [True, True, False, False] (Pending, Pending, s) =
     (Responded (fst (submit_test e1 attemptId s)),
      Responded (fst (submit_test e2 attemptId (snd (submit_test e1 attemptId s)))),
      snd (submit_test e2 attemptId (snd (submit_test e1 attemptId s))))"
  by (simp add: step_def submit_test_steps split: prod.splits)

lemma step_read:
  assumes "\<not> down e ReadAnswers"
  shows "step e attemptId Pending s = (Scored (score_answers (Some (answers_of attemptId s))), s)"
  using assms by (simp add: step_def read_answers_def answers_of_def)

lemma step_write:
  assumes "\<not> down e UpdateAttempt"
  shows "step e attemptId (Scored r) s =
           (Responded (Submitted r),
            s\<lparr>test_attempts :=
                 map (\<lambda>a. if attempt_pk a = attemptId
                           then a\<lparr>submitted_at := Some (clock e), score := res_score r,
                                  is_completed := True\<rparr>
                           else a)
                     (test_attempts s)\<rparr>)"
  using assms by (simp add: step_def write_attempt_def update_attempt_def)

lemma submit_test_alone:
  assumes "\<not> down e ReadAnswers" and "\<not> down e UpdateAttempt"
  shows "submit_test e attemptId s =
           (Submitted (score_answers (Some (answers_of attemptId s))),
            s\<lparr>test_attempts :=
                 map (\<lambda>a. if attempt_pk a = attemptId
                           then a\<lparr>submitted_at := Some (clock e),
                                  score := res_score (score_answers (Some (answers_of attemptId s))),
                                  is_completed := True\<rparr>
                           else a)
                     (test_attempts s)\<rparr>)"
  using assms
  by (simp add: submit_test_steps write_attempt_def update_attempt_def read_answers_def
      answers_of_def)

lemma write_over_write:
  "map (\<lambda>a. if attempt_pk a = attemptId
            then a\<lparr>submitted_at := Some t2, score := sc, is_completed := True\<rparr> else a)
     (map (\<lambda>a. if attempt_pk a = attemptId
               then a\<lparr>submitted_at := Some t1, score := sc, is_completed := True\<rparr> else a) xs) =
   map (\<lambda>a. if attempt_pk a = attemptId
            then a\<lparr>submitted_at := Some t2, score := sc, is_completed := True\<rparr> else a) xs"
  by (induction xs) simp_all

lemma four_steps:
  assumes "length (filter (\<lambda>b. b) sch) = 2" and "length (filter (\<lambda>b. \<not> b) sch) = 2"
  shows "sch \<in> {[True, True, False, False], [True, False, True, False],
                 [True, False, False, True], [False, True, True, False],
                 [False, True, False, True], [False, False, True, True]}"
proof -
  have "length (filter (\<lambda>b. b) sch) + length (filter (\<lambda>b. \<not> b) sch) = length sch"
    by (rule sum_length_filter_compl)
  with assms have "length sch = Suc (Suc (Suc (Suc 0)))"
    by simp
  then obtain a b c d where "sch = [a, b, c, d]"
    by (auto simp: length_Suc_conv)
  with assms show ?thesis
    by (cases a; cases b; cases c; cases d; simp)
qed

text \<open>
  C9 (as the code has it). No request reads \<open>is_completed\<close>, and none stops short. In every
  schedule of the four store calls of two \<^verbatim>\<open>submit-test\<close> requests for one attempt, on a
  store that answers, each request computes the counters from the answers it read and
  each applies its update: both get the response a lone request gets, the same for both,
  and the store ends as a lone request of the later writer leaves it, with the score
  written twice, not added up, and \<open>submitted_at\<close> the time of the later writer.
\<close>

theorem concurrent_submit:
  assumes up: "\<not> down e1 ReadAnswers" "\<not> down e1 UpdateAttempt"
      "\<not> down e2 ReadAnswers" "\<not> down e2 UpdateAttempt"
    and sch: "length (filter (\<lambda>b. b) sch) = 2" "length (filter (\<lambda>b. \<not> b) sch) = 2"
  shows "run e1 e2 attemptId sch (Pending, Pending, s) =
           (Responded (fst (submit_test e1 attemptId s)),
            Responded (fst (submit_test e2 attemptId s)),
            snd (submit_test (if last sch then e1 else e2) attemptId s)) \<and>
         fst (submit_test e1 attemptId s) = fst (submit_test e2 attemptId s)"
proof -
  note alone = submit_test_alone [OF up(1,2)] submit_test_alone [OF up(3,4)]
  note steps = step_read [OF up(1)] step_read [OF up(3)] step_write [OF up(2)]
    step_write [OF up(4)] answers_of_attempts_update write_over_write
  from four_steps [OF sch] show ?thesis
    by (elim insertE emptyE) (simp_all add: alone steps)
qed


theorem concurrent_submit_witness:
  "run (env_at 7100000) (env_at 7300000) ''a1'' [True, False, False, True]
       (Pending, Pending, db_answered) =
     (Responded (Submitted \<lparr>res_score = 1, res_attempted = 1, res_correct = 1,
                             res_incorrect = 0, res_unattempted = 39\<rparr>),
      Responded (Submitted \<lparr>res_score = 1, res_attempted = 1, res_correct = 1,
                             res_incorrect = 0, res_unattempted = 39\<rparr>),
      db_done) \<and>
   run (env_at 7100000) (env_at 7300000) ''a1'' [True, True, False, False]
       (Pending, Pending, db_answered) =
     (Responded (Submitted \<lparr>res_score = 1, res_attempted = 1, res_correct = 1,
                             res_incorrect = 0, res_unattempted = 39\<rparr>),
      Responded (Submitted \<lparr>res_score = 1, res_attempted = 1, res_correct = 1,
                             res_incorrect = 0, res_unattempted = 39\<rparr>),
      db_done\<lparr>test_attempts :=
        [attempt1\<lparr>submitted_at := Some 7300000, score := 1, is_completed := True\<rparr>]\<rparr>)"
proof -
  have up: "\<not> down (env_at n) ReadAnswers" "\<not> down (env_at n) UpdateAttempt" for n
    by (simp_all add: env_at_def)
  have sch: "length (filter (\<lambda>b. b) [True, False, False, True]) = 2"
    "length (filter (\<lambda>b. \<not> b) [True, False, False, True]) = 2"
    "length (filter (\<lambda>b. b) [True, True, False, False]) = 2"
    "length (filter (\<lambda>b. \<not> b) [True, True, False, False]) = 2"
    by simp_all
  have alone: "submit_test (env_at n) ''a1'' db_answered =
     (Submitted \<lparr>res_score = 1, res_attempted = 1, res_correct = 1, res_incorrect = 0,
                 res_unattempted = 39\<rparr>,
      db_done\<lparr>test_attempts :=
        [attempt1\<lparr>submitted_at := Some n, score := 1, is_completed := True\<rparr>]\<rparr>)" for n
    by (simp add: submit_test_def update_attempt_def env_at_def db_answered_def db_open_def
        db_fresh_def db_done_def attempt1_def answer1_def Let_def)
  have same: "db_done\<lparr>test_attempts :=
        [attempt1\<lparr>submitted_at := Some 7100000, score := 1, is_completed := True\<rparr>]\<rparr> = db_done"
    by (simp add: db_done_def)
  show ?thesis
    using concurrent_submit [OF up up sch(1,2), of 7100000 7300000 "''a1''" db_answered]
      concurrent_submit [OF up up sch(3,4), of 7100000 7300000 "''a1''" db_answered]
    by (simp add: alone same)
qed

text \<open>
  C9 as stated fails. With the reads first, and also with the first request finished
  before the second starts, the second request holds counters of its own when the first
  has set \<open>is_completed\<close>, and its update then moves \<open>submitted_at\<close> from 7100000 to
  7300000.
\<close>

theorem concurrent_submit_counterexample:
  "run (env_at 7100000) (env_at 7300000) ''a1'' [True, False, True]
       (Pending, Pending, db_answered) =
     (Responded (Submitted \<lparr>res_score = 1, res_attempted = 1, res_correct = 1,
                             res_incorrect = 0, res_unattempted = 39\<rparr>),
      Scored \<lparr>res_score = 1, res_attempted = 1, res_correct = 1, res_incorrect = 0,
              res_unattempted = 39\<rparr>,
      db_done) \<and>
   map is_completed (test_attempts db_done) = [True] \<and>
   map submitted_at (test_attempts db_done) = [Some 7100000] \<and>
   snd (snd (run (env_at 7100000) (env_at 7300000) ''a1'' [True, False, True, False]
       (Pending, Pending, db_answered))) \<noteq> db_done \<and>
   map submitted_at (test_attempts (snd (snd
       (run (env_at 7100000) (env_at 7300000) ''a1'' [True, False, True, False]
         (Pending, Pending, db_answered))))) = [Some 7300000] \<and>
   run (env_at 7100000) (env_at 7300000) ''a1'' [True, True, False]
       (Pending, Pending, db_answered) =
     (Responded (Submitted \<lparr>res_score = 1, res_attempted = 1, res_correct = 1,
                             res_incorrect = 0, res_unattempted = 39\<rparr>),
      Scored \<lparr>res_score = 1, res_attempted = 1, res_correct = 1, res_incorrect = 0,
              res_unattempted = 39\<rparr>,
      db_done) \<and>
   map submitted_at (test_attempts (snd (snd
       (run (env_at 7100000) (env_at 7300000) ''a1'' [True, True, False, False]
         (Pending, Pending, db_answered))))) = [Some 7300000]"
  by (simp add: step_def read_answers_def score_answers_def write_attempt_def
      update_attempt_def env_at_def db_answered_def db_open_def db_fresh_def db_done_def
      attempt1_def answer1_def Let_def)

end
